theory Spec2Isabelle
  imports Complex_Main
begin

section \<open>Errors\<close>

text \<open>
  The Python exceptions that the modelled notebook code can raise. A function that may
  raise returns \<open>error + 'a\<close>, with \<open>Inl\<close> for the exception.
\<close>

datatype error = NotImplementedError | IndexError | ValueError | ZeroDivisionError | OSError

section \<open>The element filter of the A3MDnet tutorial\<close>

text \<open>
  An RDKit molecule is seen through \<open>mol.GetAtoms()\<close> and \<open>atom.GetSymbol()\<close> only.
\<close>

record atom =
  GetSymbol :: string

record mol =
  GetAtoms :: "atom list"

text \<open>Python's \<open>any\<close> on a list of booleans.\<close>

definition any_py :: "bool list \<Rightarrow> bool" where
  "any_py bs = list_ex (\<lambda>b. b) bs"

text \<open>
  \<^verbatim>\<open>
  def has_not_allowed_atoms(mol, allowed_elements):
      symbols = [i.GetSymbol() for i in mol.GetAtoms()]
      if any([i not in allowed_elements for i in allowed_elements]):
          return True
      else:
          return False
  \<close>
  The list \<open>symbols\<close> is computed and never read: the comprehension under \<open>any\<close>
  ranges over \<open>allowed_elements\<close>.
\<close>

definition has_not_allowed_atoms :: "mol \<Rightarrow> string list \<Rightarrow> bool" where
  "has_not_allowed_atoms m allowed_elements =
     (let symbols = map GetSymbol (GetAtoms m)
      in if any_py (map (\<lambda>i. i \<notin> set allowed_elements) allowed_elements)
         then True else False)"

text \<open>
  The embedding loop. RDKit's operations are parameters: \<open>GetNumHeavyAtoms\<close>,
  \<open>AddHs\<close>, and \<open>optimize\<close> for \<open>EmbedMolecule\<close> followed by
  \<open>MMFFOptimizeMolecule\<close>, which is \<open>None\<close> when the latter raises \<open>ValueError\<close>
  (the loop catches it and continues).
  \<^verbatim>\<open>
  embed_mols = []
  for i in smi:
      if i.GetNumHeavyAtoms() > 30: continue
      if has_not_allowed_atoms(i, ['C', 'H', 'N', 'O']): continue
      u = Chem.AddHs(i)
      AllChem.EmbedMolecule(u)
      try:
          AllChem.MMFFOptimizeMolecule(u)
      except ValueError:
          continue
      embed_mols.append(u)
  \<close>
\<close>

fun embed_loop :: "(mol \<Rightarrow> nat) \<Rightarrow> (mol \<Rightarrow> mol) \<Rightarrow> (mol \<Rightarrow> mol option) \<Rightarrow> mol list \<Rightarrow> mol list \<Rightarrow> mol list" where
  "embed_loop GetNumHeavyAtoms AddHs optimize embed_mols [] = embed_mols"
| "embed_loop GetNumHeavyAtoms AddHs optimize embed_mols (i # smi) =
     (if GetNumHeavyAtoms i > 30 then embed_loop GetNumHeavyAtoms AddHs optimize embed_mols smi
      else if has_not_allowed_atoms i [''C'', ''H'', ''N'', ''O'']
        then embed_loop GetNumHeavyAtoms AddHs optimize embed_mols smi
      else (case optimize (AddHs i) of
              None \<Rightarrow> embed_loop GetNumHeavyAtoms AddHs optimize embed_mols smi
            | Some u \<Rightarrow> embed_loop GetNumHeavyAtoms AddHs optimize (embed_mols @ [u]) smi))"

section \<open>The lazy mesh grid of the DeepDFT tutorial\<close>

text \<open>
  Arithmetic is exact: NumPy's floating-point numbers are modelled as real numbers.
  A vector of three coordinates is a triple, a \<open>3 \<times> 3\<close> cell (ASE's \<open>Cell\<close>) is a
  triple of row vectors, and an \<open>N \<times> 3\<close> array of positions is a list of \<open>N\<close> triples.
\<close>

type_synonym vec3 = "real \<times> real \<times> real"

type_synonym Cell = "vec3 \<times> vec3 \<times> vec3"

definition zeros3 :: vec3 where
  "zeros3 = (0, 0, 0)"

definition vadd :: "vec3 \<Rightarrow> vec3 \<Rightarrow> vec3" where
  "vadd u v = (case u of (u1, u2, u3) \<Rightarrow> case v of (v1, v2, v3) \<Rightarrow> (u1 + v1, u2 + v2, u3 + v3))"

text \<open>The product of a row vector with the cell matrix.\<close>

definition vecmat :: "vec3 \<Rightarrow> Cell \<Rightarrow> vec3" where
  "vecmat p c =
     (case p of (x, y, z) \<Rightarrow>
      case c of ((a1, a2, a3), (b1, b2, b3), (c1, c2, c3)) \<Rightarrow>
        (x * a1 + y * b1 + z * c1, x * a2 + y * b2 + z * c2, x * a3 + y * b3 + z * c3))"

text \<open>\<open>np.dot(grid_pos, cell)\<close> for an \<open>N \<times> 3\<close> array \<open>grid_pos\<close>: row by row.\<close>

definition dot :: "vec3 list \<Rightarrow> Cell \<Rightarrow> vec3 list" where
  "dot grid_pos c = map (\<lambda>p. vecmat p c) grid_pos"

text \<open>
  ASE's \<open>cell.lengths()\<close>: the Euclidean norms of the three cell vectors.
\<close>

definition vnorm :: "vec3 \<Rightarrow> real" where
  "vnorm v = (case v of (x, y, z) \<Rightarrow> sqrt (x\<^sup>2 + y\<^sup>2 + z\<^sup>2))"

definition lengths :: "Cell \<Rightarrow> real list" where
  "lengths c = (case c of (a, b, c') \<Rightarrow> [vnorm a, vnorm b, vnorm c'])"

text \<open>
  \<open>np.arange(start, stop, step)\<close> has \<open>\<lceil>(stop - start) / step\<rceil>\<close> entries (none when
  that number is not positive), the \<open>i\<close>-th being \<open>start + i * step\<close>. With a zero step
  NumPy cannot compute the length and raises.
\<close>

definition arange :: "real \<Rightarrow> real \<Rightarrow> real \<Rightarrow> error + real list" where
  "arange start stop step =
     (if step = 0 then Inl ValueError
      else Inr (map (\<lambda>i. start + real i * step) [0..<nat \<lceil>(stop - start) / step\<rceil>]))"

text \<open>A list comprehension whose body may raise: the first exception ends it.\<close>

fun mapE :: "('a \<Rightarrow> error + 'b) \<Rightarrow> 'a list \<Rightarrow> error + 'b list" where
  "mapE f [] = Inr []"
| "mapE f (x # xs) =
     (case f x of
        Inl e \<Rightarrow> Inl e
      | Inr y \<Rightarrow> (case mapE f xs of Inl e \<Rightarrow> Inl e | Inr ys \<Rightarrow> Inr (y # ys)))"

text \<open>
  \<^verbatim>\<open>
  class LazyMeshGrid():
      def __init__(self, cell, grid_step, origin=None):
          self.cell = cell
          self.scaled_grid_vectors = [np.arange(0, l, grid_step)/l for l in self.cell.lengths()]
          self.shape = np.array([len(g) for g in self.scaled_grid_vectors] + [3])
          if origin is None:
              self.origin = np.zeros(3)
          else:
              self.origin = origin
          self.origin = np.expand_dims(self.origin, 0)
  \<close>
  The field \<open>origin\<close> is the \<open>1 \<times> 3\<close> array that \<open>expand_dims\<close> returns: a list of
  one row. The division by \<open>l\<close> is elementwise; when \<open>l = 0\<close> the array it divides is
  empty.
\<close>

record LazyMeshGrid =
  cell :: Cell
  scaled_grid_vectors :: "real list list"
  shape :: "nat list"
  origin :: "vec3 list"

definition LazyMeshGrid_init :: "Cell \<Rightarrow> real \<Rightarrow> vec3 option \<Rightarrow> error + LazyMeshGrid" where
  "LazyMeshGrid_init cell0 grid_step origin0 =
     (case mapE (\<lambda>l. case arange 0 l grid_step of
                        Inl e \<Rightarrow> Inl e
                      | Inr g \<Rightarrow> Inr (map (\<lambda>x. x / l) g)) (lengths cell0) of
        Inl e \<Rightarrow> Inl e
      | Inr sgv \<Rightarrow>
          Inr \<lparr>cell = cell0,
               scaled_grid_vectors = sgv,
               shape = map length sgv @ [3],
               origin = [case origin0 of None \<Rightarrow> zeros3 | Some v \<Rightarrow> v]\<rparr>)"

text \<open>
  The argument of \<open>__getitem__\<close> after \<open>indices = np.array(indices)\<close>: an integer array,
  with its shape and its entries in row-major order. A NumPy array holds as many entries
  as its shape says (\<open>nd_wf\<close>).
\<close>

record ndarray =
  nd_shape :: "nat list"
  nd_data :: "int list"

definition nd_wf :: "ndarray \<Rightarrow> bool" where
  "nd_wf a = (length (nd_data a) = prod_list (nd_shape a))"

text \<open>\<open>indices[r]\<close> for a two-dimensional array: its row \<open>r\<close>.\<close>

definition nd_row :: "ndarray \<Rightarrow> nat \<Rightarrow> int list" where
  "nd_row a r = take (nd_shape a ! 1) (drop (r * (nd_shape a ! 1)) (nd_data a))"

text \<open>
  \<open>xs[idx]\<close> for a one-dimensional array \<open>xs\<close> and an integer index array \<open>idx\<close>:
  an index \<open>i\<close> with \<open>-len(xs) \<le> i < 0\<close> counts from the end, and an index outside
  \<open>-len(xs) \<le> i < len(xs)\<close> raises \<open>IndexError\<close>.
\<close>

definition take_idx :: "'a list \<Rightarrow> int list \<Rightarrow> error + 'a list" where
  "take_idx xs idx =
     (if list_all (\<lambda>i. - int (length xs) \<le> i \<and> i < int (length xs)) idx
      then Inr (map (\<lambda>i. xs ! nat (if i < 0 then i + int (length xs) else i)) idx)
      else Inl IndexError)"

text \<open>
  \<open>np.stack([gridA, gridB, gridC], 1)\<close> for three one-dimensional arrays: the arrays
  must have one shape, and the result has one row per position.
\<close>

definition stack1 :: "real list \<Rightarrow> real list \<Rightarrow> real list \<Rightarrow> error + vec3 list" where
  "stack1 as bs cs =
     (if length as = length bs \<and> length bs = length cs then Inr (zip as (zip bs cs))
      else Inl ValueError)"

text \<open>
  \<open>grid_pos += origin\<close> for an \<open>N \<times> 3\<close> array and an \<open>M \<times> 3\<close> array: a single
  row is broadcast over all rows; otherwise the row counts must agree.
\<close>

definition iadd :: "vec3 list \<Rightarrow> vec3 list \<Rightarrow> error + vec3 list" where
  "iadd grid_pos os =
     (if length os = 1 then Inr (map (\<lambda>p. vadd p (os ! 0)) grid_pos)
      else if length os = length grid_pos then Inr (map (\<lambda>(p, v). vadd p v) (zip grid_pos os))
      else Inl ValueError)"

text \<open>
  \<^verbatim>\<open>
      def __getitem__(self, indices):
          indices = np.array(indices)
          indices_shape = indices.shape
          if not (len(indices_shape) == 2 and indices_shape[0] == 3):
              raise NotImplementedError("Indexing must be a 3xN array-like object")
          gridA = self.scaled_grid_vectors[0][indices[0]]
          gridB = self.scaled_grid_vectors[1][indices[1]]
          gridC = self.scaled_grid_vectors[2][indices[2]]

          grid_pos = np.stack([gridA, gridB, gridC], 1)
          grid_pos = np.dot(grid_pos, self.cell)
          grid_pos += self.origin

          return grid_pos
  \<close>
  The method is modelled with the object passed in and returned: the second component of
  the result is \<open>self\<close> after the call. The method assigns to the local names
  \<open>indices\<close> and \<open>grid_pos\<close> only, \<open>np.stack\<close> and \<open>np.dot\<close> return new arrays, and
  the in-place addition writes into the array that \<open>np.dot\<close> returned.
\<close>

definition getitem :: "LazyMeshGrid \<Rightarrow> ndarray \<Rightarrow> (error + vec3 list) \<times> LazyMeshGrid" where
  "getitem self indices =
     (let indices_shape = nd_shape indices in
      if \<not> (length indices_shape = 2 \<and> indices_shape ! 0 = 3)
      then (Inl NotImplementedError, self)
      else
        case take_idx (scaled_grid_vectors self ! 0) (nd_row indices 0) of
          Inl e \<Rightarrow> (Inl e, self)
        | Inr gridA \<Rightarrow>
        (case take_idx (scaled_grid_vectors self ! 1) (nd_row indices 1) of
          Inl e \<Rightarrow> (Inl e, self)
        | Inr gridB \<Rightarrow>
        (case take_idx (scaled_grid_vectors self ! 2) (nd_row indices 2) of
          Inl e \<Rightarrow> (Inl e, self)
        | Inr gridC \<Rightarrow>
        (case stack1 gridA gridB gridC of
          Inl e \<Rightarrow> (Inl e, self)
        | Inr grid_pos \<Rightarrow> (iadd (dot grid_pos (cell self)) (origin self), self)))))"


text \<open>
  The scaled grid vector that the constructor computes for an axis of length \<open>l\<close>, in
  closed form (see \<open>init_nonzero\<close> below).
\<close>

definition grid_vector :: "real \<Rightarrow> real \<Rightarrow> real list" where
  "grid_vector l grid_step = map (\<lambda>i. real i * grid_step / l) [0..<nat \<lceil>l / grid_step\<rceil>]"

section \<open>Loading a molecule\<close>


text \<open>
  An ASE \<open>Atoms\<close> object, seen through \<open>get_positions()\<close> and \<open>get_cell()\<close>, and the
  dictionary that \<open>load_molecule\<close> returns, with its keys \<open>atoms\<close>, \<open>origin\<close> and
  \<open>grid_position\<close> (the keys \<open>metadata\<close> and \<open>diff\<close> are read by neither the grid nor
  the cube writer and are left out).
\<close>

record Atoms =
  get_positions :: "vec3 list"
  get_cell :: Cell

record density_dict =
  dd_atoms :: Atoms
  dd_origin :: vec3
  dd_grid_position :: LazyMeshGrid


section \<open>The cube-generation loops of the DeepDFT tutorial\<close>

text \<open>
  What the loops do to cube files is recorded as a trace of events: a cube writer
  constructed with its five arguments, and a call of its \<open>write\<close> method with an array
  of values.
\<close>

datatype event =
  CubeWriter_init string Atoms "nat list" vec3 string
| CubeWriter_write "real list"

text \<open>
  Modelled from the spec: the constructor of \<open>deepdft.utils.CubeWriter\<close>, which is not
  part of the notebooks. The spec says that the writer "accepts a flat header (atom list,
  grid shape, origin, comment)" and "fails if the file path is not writable". Whether a
  path can be opened for writing is the parameter \<open>writable\<close>.
\<close>

definition CubeWriter :: "(string \<Rightarrow> bool) \<Rightarrow> string \<Rightarrow> Atoms \<Rightarrow> nat list \<Rightarrow> vec3 \<Rightarrow> string \<Rightarrow> error + event" where
  "CubeWriter writable filename atoms data_shape origin0 comment =
     (if writable filename then Inr (CubeWriter_init filename atoms data_shape origin0 comment)
      else Inl OSError)"

text \<open>
  Modelled from the spec: \<open>deepdft.dataset.DensityGridIterator\<close>, which is not part of
  the notebooks. The spec says that the values are appended "in row-major (x slowest, z
  fastest) order": the iterator yields the voxels of the grid, as index lists, in that
  order, in slices of at most \<open>probe_count\<close> voxels.
\<close>

fun row_major :: "nat list \<Rightarrow> nat list list" where
  "row_major [] = [[]]"
| "row_major (n # ns) = concat (map (\<lambda>i. map (\<lambda>v. i # v) (row_major ns)) [0..<n])"

text \<open>
  Modelled from the spec: the slices of \<open>DensityGridIterator\<close>, consecutive runs of
  \<open>n\<close> entries, the last one possibly shorter.
\<close>

function chunks :: "nat \<Rightarrow> 'a list \<Rightarrow> 'a list list" where
  "chunks n xs = (if n = 0 \<or> xs = [] then [] else take n xs # chunks n (drop n xs))"
  by pat_completeness auto
termination
  by (relation "measure (\<lambda>(n, xs). length xs)") auto

declare chunks.simps [simp del]

text \<open>
  Modelled from the spec: the sequence of slices that \<open>DensityGridIterator\<close> yields for a
  molecule, over the grid of shape \<open>grid_position.shape[0:3]\<close>.
\<close>

definition DensityGridIterator :: "density_dict \<Rightarrow> nat \<Rightarrow> nat list list list" where
  "DensityGridIterator density_dict0 probe_count =
     chunks probe_count (row_major (take 3 (shape (dd_grid_position density_dict0))))"

definition bohr2ang :: real where
  "bohr2ang = 529177 / 1000000"

definition bohr2angp3 :: real where
  "bohr2angp3 = bohr2ang ^ 3"

text \<open>
  The body of both loops, for one molecule:
  \<^verbatim>\<open>
        r = - density_dict["diff"] / 2
        cubewriter = utils.CubeWriter(
            "./cube/{:s}.deepdft.cube".format(i),
            density_dict["atoms"],
            density_dict["grid_position"].shape[0:3],
            density_dict["origin"],
            "predicted by DeepDFT model",
        )
        graph_dict = collate_fn([density_dict])
        device_batch = {...}
        atom_representation = model.atom_model(device_batch)
        density_iter = dataset.DensityGridIterator(density_dict, True, 1000, cutoff)
        for probe_graph_dict in density_iter:
            probe_dict = ...
            device_batch[...] = probe_dict[...]
            cubewriter.write(bohr2angp3 * model.probe_model(device_batch, atom_representation).cpu().detach().numpy().flatten())
  \<close>
  The network is the parameter \<open>probe_model\<close>: the values it predicts for a molecule and
  a slice of probes. The body takes the trace so far and returns the trace after it, with
  the exception if one was raised. Exceptions of the network and of the graph construction
  are not modelled.
\<close>

definition cube_body :: "(string \<Rightarrow> bool) \<Rightarrow> (density_dict \<Rightarrow> nat list list \<Rightarrow> real list) \<Rightarrow> string \<Rightarrow> density_dict \<Rightarrow> event list \<Rightarrow> (error + unit) \<times> event list" where
  "cube_body writable probe_model path density_dict0 trace =
     (case CubeWriter writable path (dd_atoms density_dict0)
             (take 3 (shape (dd_grid_position density_dict0)))
             (dd_origin density_dict0) ''predicted by DeepDFT model'' of
        Inl e \<Rightarrow> (Inl e, trace)
      | Inr cubewriter \<Rightarrow>
          (Inr (),
           foldl (\<lambda>tr probe_graph_dict.
                    tr @ [CubeWriter_write (map (\<lambda>v. bohr2angp3 * v) (probe_model density_dict0 probe_graph_dict))])
                 (trace @ [cubewriter])
                 (DensityGridIterator density_dict0 1000)))"

text \<open>
  The loop over the sugar benchmark ends with \<open>break\<close>: only the first molecule is
  processed. (After the writes it also saves the atoms with \<open>ase.io.write\<close>, to an
  \<open>xyz\<close> file; that is no cube writer event.)
  \<^verbatim>\<open>
    for i, density_dict in sugbench:
        ...
        break # we break here, to avoid calculating the whole dataset
  \<close>
\<close>

fun sugbench_loop :: "(string \<Rightarrow> bool) \<Rightarrow> (density_dict \<Rightarrow> nat list list \<Rightarrow> real list) \<Rightarrow> (string \<times> density_dict) list \<Rightarrow> event list \<Rightarrow> (error + unit) \<times> event list" where
  "sugbench_loop writable probe_model [] trace = (Inr (), trace)"
| "sugbench_loop writable probe_model ((i, density_dict0) # rest) trace =
     cube_body writable probe_model (''./cube/'' @ i @ ''.deepdft.cube'') density_dict0 trace"

text \<open>
  The loop over the dimers processes every molecule, with the path
  \<open>"./dimers/{:s}.cube".format(i)\<close>; an exception ends it.
\<close>

fun dimer_loop :: "(string \<Rightarrow> bool) \<Rightarrow> (density_dict \<Rightarrow> nat list list \<Rightarrow> real list) \<Rightarrow> (string \<times> density_dict) list \<Rightarrow> event list \<Rightarrow> (error + unit) \<times> event list" where
  "dimer_loop writable probe_model [] trace = (Inr (), trace)"
| "dimer_loop writable probe_model ((i, density_dict0) # rest) trace =
     (case cube_body writable probe_model (''./dimers/'' @ i @ ''.cube'') density_dict0 trace of
        (Inl e, trace') \<Rightarrow> (Inl e, trace')
      | (Inr u, trace') \<Rightarrow> dimer_loop writable probe_model rest trace')"

section \<open>Properties of the element filter\<close>

lemma any_py_not_member_self: "\<not> any_py (map (\<lambda>i. i \<notin> set xs) xs)"
  by (simp add: any_py_def list_ex_iff)

lemma has_not_allowed_atoms_False: "has_not_allowed_atoms m allowed = False"
  by (simp add: has_not_allowed_atoms_def any_py_not_member_self)

lemma embed_loop_no_element_filter:
  "embed_loop h a opt acc smi =
     acc @ List.map_filter (\<lambda>i. if h i > 30 then None else opt (a i)) smi"
proof (induction smi arbitrary: acc)
  case Nil
  show ?case by simp
next
  case (Cons i smi)
  show ?case
  proof (cases "h i > 30")
    case True
    then show ?thesis using Cons.IH [of acc] by simp
  next
    case False
    then show ?thesis
      using Cons.IH [of acc] Cons.IH
      by (cases "opt (a i)") (simp_all add: has_not_allowed_atoms_False)
  qed
qed

text \<open>
  Claim C9. \<open>has_not_allowed_atoms\<close> returns \<open>False\<close> for every molecule and every
  list of allowed elements, whatever the molecule's atom symbols are; so the embedding loop
  keeps exactly the molecules with at most 30 heavy atoms whose optimisation does not raise:
  no molecule is skipped for its elements.
\<close>

theorem has_not_allowed_atoms_always_False:
  "has_not_allowed_atoms m allowed_elements = False \<and>
   embed_loop GetNumHeavyAtoms AddHs optimize [] smi =
     List.map_filter (\<lambda>i. if GetNumHeavyAtoms i > 30 then None else optimize (AddHs i)) smi"
  by (simp add: has_not_allowed_atoms_False embed_loop_no_element_filter)

theorem has_not_allowed_atoms_always_False_witness:
  "has_not_allowed_atoms \<lparr>GetAtoms = [\<lparr>GetSymbol = ''S''\<rparr>, \<lparr>GetSymbol = ''C''\<rparr>]\<rparr>
     [''C'', ''H'', ''N'', ''O''] = False \<and>
   embed_loop (\<lambda>m. length (GetAtoms m)) (\<lambda>m. m) Some []
     [\<lparr>GetAtoms = [\<lparr>GetSymbol = ''S''\<rparr>, \<lparr>GetSymbol = ''C''\<rparr>]\<rparr>]
   = [\<lparr>GetAtoms = [\<lparr>GetSymbol = ''S''\<rparr>, \<lparr>GetSymbol = ''C''\<rparr>]\<rparr>]"
  using has_not_allowed_atoms_always_False
    [of "\<lparr>GetAtoms = [\<lparr>GetSymbol = ''S''\<rparr>, \<lparr>GetSymbol = ''C''\<rparr>]\<rparr>"
        "[''C'', ''H'', ''N'', ''O'']" "\<lambda>m. length (GetAtoms m)" "\<lambda>m. m" Some
        "[\<lparr>GetAtoms = [\<lparr>GetSymbol = ''S''\<rparr>, \<lparr>GetSymbol = ''C''\<rparr>]\<rparr>]"]
  by simp

section \<open>Properties of the lazy mesh grid\<close>

lemma vnorm_nonneg: "0 \<le> vnorm v"
  by (cases v) (simp add: vnorm_def)

lemma length_lengths: "length (lengths c) = 3"
  by (cases c) (simp add: lengths_def)

lemma lengths_nonneg: "a < 3 \<Longrightarrow> 0 \<le> lengths c ! a"
  by (cases c) (auto simp: lengths_def vnorm_nonneg nth_Cons split: nat.splits)

lemma mapE_Inr: "(\<And>x. x \<in> set xs \<Longrightarrow> f x = Inr (g x)) \<Longrightarrow> mapE f xs = Inr (map g xs)"
  by (induction xs) simp_all

lemma mapE_Inl: "xs \<noteq> [] \<Longrightarrow> (\<And>x. x \<in> set xs \<Longrightarrow> f x = Inl e) \<Longrightarrow> mapE f xs = Inl e"
  by (cases xs) simp_all


lemma init_nonzero:
  assumes "grid_step \<noteq> 0"
  shows "LazyMeshGrid_init cell0 grid_step origin0 =
    Inr \<lparr>cell = cell0,
         scaled_grid_vectors = map (\<lambda>l. grid_vector l grid_step) (lengths cell0),
         shape = map (\<lambda>l. nat \<lceil>l / grid_step\<rceil>) (lengths cell0) @ [3],
         origin = [case origin0 of None \<Rightarrow> zeros3 | Some v \<Rightarrow> v]\<rparr>"
proof -
  have "mapE (\<lambda>l. case arange 0 l grid_step of Inl e \<Rightarrow> Inl e
                   | Inr g \<Rightarrow> Inr (map (\<lambda>x. x / l) g)) (lengths cell0)
        = Inr (map (\<lambda>l. grid_vector l grid_step) (lengths cell0))"
    using assms by (intro mapE_Inr) (simp add: arange_def grid_vector_def)
  then show ?thesis
    by (simp add: LazyMeshGrid_init_def grid_vector_def comp_def)
qed

lemma init_zero: "LazyMeshGrid_init cell0 0 origin0 = Inl ValueError"
proof -
  have "lengths cell0 \<noteq> []" using length_lengths [of cell0] by auto
  then have "mapE (\<lambda>l. case arange 0 l 0 of Inl e \<Rightarrow> Inl e
                   | Inr g \<Rightarrow> Inr (map (\<lambda>x. x / l) g)) (lengths cell0) = Inl ValueError"
    by (intro mapE_Inl) (simp_all add: arange_def)
  then show ?thesis by (simp add: LazyMeshGrid_init_def)
qed

lemma init_InrD:
  assumes "LazyMeshGrid_init cell0 grid_step origin0 = Inr g"
  shows "grid_step \<noteq> 0"
    and "cell g = cell0"
    and "scaled_grid_vectors g = map (\<lambda>l. grid_vector l grid_step) (lengths cell0)"
    and "shape g = map (\<lambda>l. nat \<lceil>l / grid_step\<rceil>) (lengths cell0) @ [3]"
    and "origin g = [case origin0 of None \<Rightarrow> zeros3 | Some v \<Rightarrow> v]"
proof -
  show nz: "grid_step \<noteq> 0"
  proof
    assume "grid_step = 0"
    then show False using assms init_zero [of cell0 origin0] by simp
  qed
  show "cell g = cell0"
    and "scaled_grid_vectors g = map (\<lambda>l. grid_vector l grid_step) (lengths cell0)"
    and "shape g = map (\<lambda>l. nat \<lceil>l / grid_step\<rceil>) (lengths cell0) @ [3]"
    and "origin g = [case origin0 of None \<Rightarrow> zeros3 | Some v \<Rightarrow> v]"
    using assms init_nonzero [OF nz, of cell0 origin0] by auto
qed

lemma init_axis:
  assumes "LazyMeshGrid_init cell0 grid_step origin0 = Inr g" and "a < 3"
  shows "scaled_grid_vectors g ! a = grid_vector (lengths cell0 ! a) grid_step"
    and "shape g ! a = nat \<lceil>lengths cell0 ! a / grid_step\<rceil>"
    and "length (scaled_grid_vectors g ! a) = shape g ! a"
  using init_InrD(3,4) [OF assms(1)] assms(2) length_lengths [of cell0]
  by (simp_all add: nth_append grid_vector_def)

lemma getitem_snd: "snd (getitem g indices) = g"
  by (simp add: getitem_def Let_def split: sum.splits)


lemma length_nd_row:
  assumes "nd_wf idx" and "nd_shape idx = [3, N]" and "r < 3"
  shows "length (nd_row idx r) = N"
proof -
  have len: "length (nd_data idx) = 3 * N" using assms(1,2) by (simp add: nd_wf_def)
  have "r + 1 \<le> 3" using assms(3) by simp
  then have "(r + 1) * N \<le> 3 * N" by (rule mult_le_mono1)
  moreover have "(r + 1) * N = N + r * N" by (simp add: algebra_simps)
  ultimately have "N + r * N \<le> 3 * N" by (simp only:)
  then have "N \<le> 3 * N - r * N" by (rule add_le_imp_le_diff)
  then have "min (length (nd_data idx) - r * N) N = N" unfolding len by (rule min_absorb2)
  then show ?thesis using assms(2) by (simp add: nd_row_def)
qed

lemma take_idx_Inr:
  assumes "\<forall>i\<in>set idx. - int (length xs) \<le> i \<and> i < int (length xs)"
  shows "take_idx xs idx = Inr (map (\<lambda>i. xs ! nat (if i < 0 then i + int (length xs) else i)) idx)"
  using assms by (simp add: take_idx_def list_all_iff)

lemma take_idx_cases:
  "take_idx xs idx = Inl IndexError \<or> (\<exists>ys. take_idx xs idx = Inr ys \<and> length ys = length idx)"
  by (simp add: take_idx_def)

lemma take_idx_empty:
  assumes "idx \<noteq> []"
  shows "take_idx [] idx = Inl IndexError"
proof -
  obtain i where "i \<in> set idx" using assms by (cases idx) auto
  then have "\<not> list_all (\<lambda>i. - int (length ([]::'a list)) \<le> i \<and> i < int (length ([]::'a list))) idx"
    by (auto simp: list_all_iff)
  then show ?thesis by (simp add: take_idx_def)
qed

lemma getitem_rows:
  assumes A: "take_idx (scaled_grid_vectors g ! 0) (nd_row idx 0) = Inr gridA"
    and B: "take_idx (scaled_grid_vectors g ! 1) (nd_row idx 1) = Inr gridB"
    and C: "take_idx (scaled_grid_vectors g ! 2) (nd_row idx 2) = Inr gridC"
    and sh: "nd_shape idx = [3, N]"
    and len: "length gridA = N" "length gridB = N" "length gridC = N"
    and org: "origin g = [v]"
  shows "fst (getitem g idx) = Inr (map (\<lambda>p. vadd (vecmat p (cell g)) v) (zip gridA (zip gridB gridC)))"
  using A B C sh len org by (simp add: getitem_def stack1_def iadd_def dot_def)

lemma init_origin:
  "LazyMeshGrid_init cell0 grid_step origin0 = Inr g \<Longrightarrow>
   origin g = [case origin0 of None \<Rightarrow> zeros3 | Some v \<Rightarrow> v]"
  by (rule init_InrD(5))

lemma getitem_in_bounds:
  assumes init: "LazyMeshGrid_init cell0 grid_step origin0 = Inr g"
    and wf: "nd_wf idx" and sh: "nd_shape idx = [3, N]"
    and inb: "\<forall>r<3. \<forall>i\<in>set (nd_row idx r). - int (shape g ! r) \<le> i \<and> i < int (shape g ! r)"
  shows "fst (getitem g idx) =
    Inr (map (\<lambda>n. vadd (vecmat
          (scaled_grid_vectors g ! 0 ! nat (if nd_row idx 0 ! n < 0 then nd_row idx 0 ! n + int (shape g ! 0) else nd_row idx 0 ! n),
           scaled_grid_vectors g ! 1 ! nat (if nd_row idx 1 ! n < 0 then nd_row idx 1 ! n + int (shape g ! 1) else nd_row idx 1 ! n),
           scaled_grid_vectors g ! 2 ! nat (if nd_row idx 2 ! n < 0 then nd_row idx 2 ! n + int (shape g ! 2) else nd_row idx 2 ! n))
          cell0) (case origin0 of None \<Rightarrow> zeros3 | Some v \<Rightarrow> v)) [0..<N])"
    (is "_ = Inr (map ?f [0..<N])")
proof -
  let ?pick = "\<lambda>r i. scaled_grid_vectors g ! r ! nat (if i < 0 then i + int (shape g ! r) else i)"
  have tk: "take_idx (scaled_grid_vectors g ! r) (nd_row idx r) = Inr (map (?pick r) (nd_row idx r))"
    if "r < 3" for r
  proof -
    have l: "length (scaled_grid_vectors g ! r) = shape g ! r" using init that by (rule init_axis(3))
    have "\<forall>i\<in>set (nd_row idx r). - int (length (scaled_grid_vectors g ! r)) \<le> i
            \<and> i < int (length (scaled_grid_vectors g ! r))"
      using inb that unfolding l by blast
    then show ?thesis using take_idx_Inr [of "nd_row idx r" "scaled_grid_vectors g ! r"] unfolding l by simp
  qed
  have len: "length (nd_row idx r) = N" if "r < 3" for r using wf sh that by (rule length_nd_row)
  have "fst (getitem g idx) = Inr (map (\<lambda>p. vadd (vecmat p (cell g)) (case origin0 of None \<Rightarrow> zeros3 | Some v \<Rightarrow> v))
          (zip (map (?pick 0) (nd_row idx 0)) (zip (map (?pick 1) (nd_row idx 1)) (map (?pick 2) (nd_row idx 2)))))"
    by (rule getitem_rows [where N = N]) (simp_all add: tk len sh init_origin [OF init])
  also have "\<dots> = Inr (map ?f [0..<N])"
    by (simp add: list_eq_iff_nth_eq len init_InrD(2) [OF init])
  finally show ?thesis .
qed

lemma grid_vector_nth:
  assumes "k < nat \<lceil>l / grid_step\<rceil>"
  shows "grid_vector l grid_step ! k = real k * grid_step / l"
  using assms by (simp add: grid_vector_def)

lemma multiple_axis:
  assumes l: "0 < l" and m: "l = of_int m * grid_step"
  shows "nat \<lceil>l / grid_step\<rceil> = nat m"
    and "0 \<le> i \<Longrightarrow> i < int (nat m) \<Longrightarrow>
         grid_vector l grid_step ! nat i = of_int i / real (nat m)"
proof -
  have gs: "grid_step \<noteq> 0" using l m by auto
  have q: "l / grid_step = of_int m" using gs m by simp
  show c: "nat \<lceil>l / grid_step\<rceil> = nat m" unfolding q by simp
  assume i: "0 \<le> i" "i < int (nat m)"
  then have mpos: "0 < m" by (auto split: if_splits)
  have "nat i < nat \<lceil>l / grid_step\<rceil>" unfolding c using i mpos by simp
  then have "grid_vector l grid_step ! nat i = real (nat i) * grid_step / l" by (rule grid_vector_nth)
  also have "\<dots> = of_int i * grid_step / (of_int m * grid_step)" using i m by simp
  also have "\<dots> = of_int i / of_int m" using gs by simp
  also have "\<dots> = of_int i / real (nat m)" using mpos by simp
  finally show "grid_vector l grid_step ! nat i = of_int i / real (nat m)" .
qed

lemma vadd_commute: "vadd u v = vadd v u"
  by (cases u, cases v) (simp add: vadd_def)

lemma nth_lengths_mem: "r < 3 \<Longrightarrow> lengths c ! r \<in> set (lengths c)"
  using length_lengths [of c] by simp

text \<open>
  Claim C1. Let the grid be constructed from a cell whose three lengths are positive and
  integer multiples of \<open>grid_step\<close>, and let \<open>indices\<close> be a \<open>3 \<times> N\<close> array whose
  column \<open>n\<close> is an index triple \<open>(i, j, k)\<close> with \<open>0 \<le> i < shape[0]\<close>,
  \<open>0 \<le> j < shape[1]\<close>, \<open>0 \<le> k < shape[2]\<close>. Then \<open>__getitem__\<close> returns the
  \<open>N \<times> 3\<close> array whose row \<open>n\<close> is
  \<open>origin + (i / shape[0], j / shape[1], k / shape[2]) \<cdot> cell\<close>.
  (Index triples are grid indices, counted from zero; a negative entry would count from the
  end of the axis, as NumPy indexing does.)
\<close>

theorem getitem_position:
  assumes init: "LazyMeshGrid_init cell0 grid_step origin0 = Inr g"
    and mult: "\<forall>l\<in>set (lengths cell0). 0 < l \<and> (\<exists>m::int. l = of_int m * grid_step)"
    and wf: "nd_wf indices" and sh: "nd_shape indices = [3, N]"
    and inb: "\<forall>r<3. \<forall>i\<in>set (nd_row indices r). 0 \<le> i \<and> i < int (shape g ! r)"
  shows "fst (getitem g indices) =
    Inr (map (\<lambda>n. vadd (case origin0 of None \<Rightarrow> zeros3 | Some v \<Rightarrow> v)
                 (vecmat (of_int (nd_row indices 0 ! n) / real (shape g ! 0),
                          of_int (nd_row indices 1 ! n) / real (shape g ! 1),
                          of_int (nd_row indices 2 ! n) / real (shape g ! 2)) cell0))
             [0..<N])"
proof -
  have inb': "\<forall>r<3. \<forall>i\<in>set (nd_row indices r). - int (shape g ! r) \<le> i \<and> i < int (shape g ! r)"
    using inb by fastforce
  have len: "length (nd_row indices r) = N" if "r < 3" for r using wf sh that by (rule length_nd_row)
  have ax: "scaled_grid_vectors g ! r ! nat (if nd_row indices r ! n < 0
                then nd_row indices r ! n + int (shape g ! r) else nd_row indices r ! n)
            = of_int (nd_row indices r ! n) / real (shape g ! r)"
    if r: "r < 3" and n: "n < N" for r n
  proof -
    let ?i = "nd_row indices r ! n"
    have "?i \<in> set (nd_row indices r)" using len [OF r] n by simp
    then have i: "0 \<le> ?i" "?i < int (shape g ! r)" using inb r by auto
    obtain m :: int where l: "0 < lengths cell0 ! r" and m: "lengths cell0 ! r = of_int m * grid_step"
      using mult nth_lengths_mem [OF r, of cell0] by blast
    have s: "shape g ! r = nat m"
      using init_axis(2) [OF init r] multiple_axis(1) [OF l m] by simp
    have gv: "grid_vector (lengths cell0 ! r) grid_step ! nat ?i = of_int ?i / real (nat m)"
      using i s by (intro multiple_axis(2) [OF l m]) simp_all
    have w: "nat (if ?i < 0 then ?i + int (shape g ! r) else ?i) = nat ?i" using i(1) by simp
    show ?thesis unfolding w init_axis(1) [OF init r] unfolding s by (rule gv)
  qed
  have "map (\<lambda>n. vadd (vecmat
          (scaled_grid_vectors g ! 0 ! nat (if nd_row indices 0 ! n < 0 then nd_row indices 0 ! n + int (shape g ! 0) else nd_row indices 0 ! n),
           scaled_grid_vectors g ! 1 ! nat (if nd_row indices 1 ! n < 0 then nd_row indices 1 ! n + int (shape g ! 1) else nd_row indices 1 ! n),
           scaled_grid_vectors g ! 2 ! nat (if nd_row indices 2 ! n < 0 then nd_row indices 2 ! n + int (shape g ! 2) else nd_row indices 2 ! n))
          cell0) (case origin0 of None \<Rightarrow> zeros3 | Some v \<Rightarrow> v)) [0..<N]
     = map (\<lambda>n. vadd (case origin0 of None \<Rightarrow> zeros3 | Some v \<Rightarrow> v)
                 (vecmat (of_int (nd_row indices 0 ! n) / real (shape g ! 0),
                          of_int (nd_row indices 1 ! n) / real (shape g ! 1),
                          of_int (nd_row indices 2 ! n) / real (shape g ! 2)) cell0))
             [0..<N]"
  proof (rule map_cong [OF refl])
    fix n assume "n \<in> set [0..<N]"
    then have n: "n < N" by simp
    have r: "(0::nat) < 3" "(1::nat) < 3" "(2::nat) < 3" by simp_all
    show "vadd (vecmat
          (scaled_grid_vectors g ! 0 ! nat (if nd_row indices 0 ! n < 0 then nd_row indices 0 ! n + int (shape g ! 0) else nd_row indices 0 ! n),
           scaled_grid_vectors g ! 1 ! nat (if nd_row indices 1 ! n < 0 then nd_row indices 1 ! n + int (shape g ! 1) else nd_row indices 1 ! n),
           scaled_grid_vectors g ! 2 ! nat (if nd_row indices 2 ! n < 0 then nd_row indices 2 ! n + int (shape g ! 2) else nd_row indices 2 ! n))
          cell0) (case origin0 of None \<Rightarrow> zeros3 | Some v \<Rightarrow> v)
      = vadd (case origin0 of None \<Rightarrow> zeros3 | Some v \<Rightarrow> v)
                 (vecmat (of_int (nd_row indices 0 ! n) / real (shape g ! 0),
                          of_int (nd_row indices 1 ! n) / real (shape g ! 1),
                          of_int (nd_row indices 2 ! n) / real (shape g ! 2)) cell0)"
      unfolding ax [OF r(1) n] ax [OF r(2) n] ax [OF r(3) n] by (rule vadd_commute)
  qed
  then show ?thesis
    unfolding getitem_in_bounds [OF init wf sh inb'] by (simp only:)
qed


lemma vnorm_axis:
  "vnorm (x, 0, 0) = \<bar>x\<bar>" "vnorm (0, x, 0) = \<bar>x\<bar>" "vnorm (0, 0, x) = \<bar>x\<bar>"
  by (simp_all add: vnorm_def)

lemma less_3_cases: "(r::nat) < 3 \<longleftrightarrow> r = 0 \<or> r = 1 \<or> r = 2"
  by auto

theorem getitem_position_witness:
  "LazyMeshGrid_init ((1, 0, 0), (0, 2, 0), (0, 0, 1)) (1 / 2) (Some (1, 1, 1)) =
     Inr \<lparr>cell = ((1, 0, 0), (0, 2, 0), (0, 0, 1)),
          scaled_grid_vectors = [[0, 1 / 2], [0, 1 / 4, 1 / 2, 3 / 4], [0, 1 / 2]],
          shape = [2, 4, 2, 3],
          origin = [(1, 1, 1)]\<rparr> \<and>
   lengths ((1, 0, 0), (0, 2, 0), (0, 0, 1)) = [of_int 2 * (1 / 2), of_int 4 * (1 / 2), of_int 2 * (1 / 2)] \<and>
   nd_wf \<lparr>nd_shape = [3, 2], nd_data = [0, 1, 3, 0, 1, 1]\<rparr> \<and>
   nd_row \<lparr>nd_shape = [3, 2], nd_data = [0, 1, 3, 0, 1, 1]\<rparr> 0 = [0, 1] \<and>
   nd_row \<lparr>nd_shape = [3, 2], nd_data = [0, 1, 3, 0, 1, 1]\<rparr> 1 = [3, 0] \<and>
   nd_row \<lparr>nd_shape = [3, 2], nd_data = [0, 1, 3, 0, 1, 1]\<rparr> 2 = [1, 1] \<and>
   fst (getitem \<lparr>cell = ((1, 0, 0), (0, 2, 0), (0, 0, 1)),
          scaled_grid_vectors = [[0, 1 / 2], [0, 1 / 4, 1 / 2, 3 / 4], [0, 1 / 2]],
          shape = [2, 4, 2, 3],
          origin = [(1, 1, 1)]\<rparr> \<lparr>nd_shape = [3, 2], nd_data = [0, 1, 3, 0, 1, 1]\<rparr>)
     = Inr [(1, 5 / 2, 3 / 2), (3 / 2, 1, 3 / 2)]"
proof -
  let ?C = "((1, 0, 0), (0, 2, 0), (0, 0, 1)) :: Cell"
  let ?G = "\<lparr>cell = ?C,
          scaled_grid_vectors = [[0, 1 / 2], [0, 1 / 4, 1 / 2, 3 / 4], [0, 1 / 2]],
          shape = [2, 4, 2, 3],
          origin = [(1, 1, 1)]\<rparr>"
  let ?I = "\<lparr>nd_shape = [3, 2], nd_data = [0, 1, 3, 0, 1, 1]\<rparr>"
  have L: "lengths ?C = [1, 2, 1]" by (simp add: lengths_def vnorm_axis)
  have h1: "LazyMeshGrid_init ?C (1 / 2) (Some (1, 1, 1)) = Inr ?G"
    by (simp add: init_nonzero L grid_vector_def upt_conv_Cons)
  have "(1::real) = of_int 2 * (1 / 2)" "(2::real) = of_int 4 * (1 / 2)" by simp_all
  then have "\<exists>m::int. (1::real) = of_int m * (1 / 2)" "\<exists>m::int. (2::real) = of_int m * (1 / 2)"
    by blast+
  then have h2: "\<forall>l\<in>set (lengths ?C). 0 < l \<and> (\<exists>m::int. l = of_int m * (1 / 2))"
    unfolding L by simp
  have h3: "nd_wf ?I" by (simp add: nd_wf_def)
  have h4: "nd_shape ?I = [3, 2]" by simp
  have h5: "\<forall>r<3. \<forall>i\<in>set (nd_row ?I r). 0 \<le> i \<and> i < int (shape ?G ! r)"
    by (simp add: less_3_cases nd_row_def)
  have L': "lengths ?C = [of_int 2 * (1 / 2), of_int 4 * (1 / 2), of_int 2 * (1 / 2)]"
    unfolding L by simp
  have rows: "nd_row ?I 0 = [0, 1]" "nd_row ?I 1 = [3, 0]" "nd_row ?I 2 = [1, 1]"
    by (simp_all add: nd_row_def)
  have "fst (getitem ?G ?I) = Inr [(1, 5 / 2, 3 / 2), (3 / 2, 1, 3 / 2)]"
    unfolding getitem_position [OF h1 h2 h3 h4 h5]
    by (simp add: nd_row_def vadd_def vecmat_def upt_conv_Cons)
  with h1 L' h3 rows show ?thesis by blast
qed

text \<open>
  Claim C7. A call of \<open>__getitem__\<close>, whether it returns or raises, leaves the fields
  \<open>cell\<close>, \<open>scaled_grid_vectors\<close>, \<open>shape\<close> and \<open>origin\<close> of the object as they were.
\<close>

theorem getitem_frame:
  "cell (snd (getitem g indices)) = cell g \<and>
   scaled_grid_vectors (snd (getitem g indices)) = scaled_grid_vectors g \<and>
   shape (snd (getitem g indices)) = shape g \<and>
   origin (snd (getitem g indices)) = origin g"
  by (simp add: getitem_snd)





lemma grid_vector_zero: "grid_vector 0 grid_step = []"
  by (simp add: grid_vector_def)

lemma getitem_empty_axis_IndexError:
  assumes e: "scaled_grid_vectors g ! a = []" and a: "a < 3"
    and sh: "nd_shape idx = [3, N]" and ne: "nd_row idx a \<noteq> []"
  shows "fst (getitem g idx) = Inl IndexError"
proof -
  have t: "take_idx (scaled_grid_vectors g ! a) (nd_row idx a) = Inl IndexError"
    unfolding e using ne by (rule take_idx_empty)
  consider "a = 0" | "a = 1" | "a = 2" using a by linarith
  then show ?thesis
  proof cases
    case 1
    then show ?thesis using t sh by (simp add: getitem_def)
  next
    case 2
    then show ?thesis
      using t sh take_idx_cases [of "scaled_grid_vectors g ! 0" "nd_row idx 0"]
      by (auto simp: getitem_def)
  next
    case 3
    then show ?thesis
      using t sh take_idx_cases [of "scaled_grid_vectors g ! 0" "nd_row idx 0"]
        take_idx_cases [of "scaled_grid_vectors g ! 1" "nd_row idx 1"]
      by (auto simp: getitem_def)
  qed
qed

text \<open>
  Claim C3. If the cell of a constructed grid has a non-positive length on axis \<open>a\<close>, then
  the grid vector of that axis is empty and the shape entry is 0, and \<open>__getitem__\<close>
  raises \<open>IndexError\<close> on every \<open>3 \<times> N\<close> index array that holds at least one index
  triple.
\<close>

theorem getitem_nonpositive_length:
  assumes init: "LazyMeshGrid_init cell0 grid_step origin0 = Inr g"
    and a: "a < 3" and l: "lengths cell0 ! a \<le> 0"
    and wf: "nd_wf indices" and sh: "nd_shape indices = [3, N]" and N: "0 < N"
  shows "scaled_grid_vectors g ! a = [] \<and> shape g ! a = 0 \<and>
         fst (getitem g indices) = Inl IndexError"
proof -
  have z: "lengths cell0 ! a = 0" using l lengths_nonneg [OF a, of cell0] by simp
  have e: "scaled_grid_vectors g ! a = []"
    using init_axis(1) [OF init a] by (simp add: z grid_vector_zero)
  have s: "shape g ! a = 0" using init_axis(2) [OF init a] by (simp add: z)
  have "length (nd_row indices a) = N" using wf sh a by (rule length_nd_row)
  then have ne: "nd_row indices a \<noteq> []" using N by auto
  show ?thesis using e s getitem_empty_axis_IndexError [OF e a sh ne] by simp
qed

subsection \<open>The grid theorems at concrete grids\<close>


lemma flat_grid_init:
  "LazyMeshGrid_init ((1, 0, 0), (0, 0, 0), (0, 0, 1)) (1 / 2) None =
     Inr \<lparr>cell = ((1, 0, 0), (0, 0, 0), (0, 0, 1)),
          scaled_grid_vectors = [[0, 1 / 2], [], [0, 1 / 2]],
          shape = [2, 0, 2, 3],
          origin = [(0, 0, 0)]\<rparr>"
  by (simp add: init_nonzero lengths_def vnorm_axis grid_vector_def upt_conv_Cons zeros3_def)

theorem getitem_frame_witness:
  "cell (snd (getitem \<lparr>cell = ((1, 0, 0), (0, 2, 0), (0, 0, 1)),
          scaled_grid_vectors = [[0, 1 / 2], [0, 1 / 4, 1 / 2, 3 / 4], [0, 1 / 2]],
          shape = [2, 4, 2, 3],
          origin = [(1, 1, 1)]\<rparr> \<lparr>nd_shape = [3, 2], nd_data = [0, 1, 3, 0, 1, 1]\<rparr>))
     = ((1, 0, 0), (0, 2, 0), (0, 0, 1)) \<and>
   scaled_grid_vectors (snd (getitem \<lparr>cell = ((1, 0, 0), (0, 2, 0), (0, 0, 1)),
          scaled_grid_vectors = [[0, 1 / 2], [0, 1 / 4, 1 / 2, 3 / 4], [0, 1 / 2]],
          shape = [2, 4, 2, 3],
          origin = [(1, 1, 1)]\<rparr> \<lparr>nd_shape = [3, 2], nd_data = [0, 1, 3, 0, 1, 1]\<rparr>))
     = [[0, 1 / 2], [0, 1 / 4, 1 / 2, 3 / 4], [0, 1 / 2]] \<and>
   shape (snd (getitem \<lparr>cell = ((1, 0, 0), (0, 2, 0), (0, 0, 1)),
          scaled_grid_vectors = [[0, 1 / 2], [0, 1 / 4, 1 / 2, 3 / 4], [0, 1 / 2]],
          shape = [2, 4, 2, 3],
          origin = [(1, 1, 1)]\<rparr> \<lparr>nd_shape = [3, 2], nd_data = [0, 1, 3, 0, 1, 1]\<rparr>))
     = [2, 4, 2, 3] \<and>
   origin (snd (getitem \<lparr>cell = ((1, 0, 0), (0, 2, 0), (0, 0, 1)),
          scaled_grid_vectors = [[0, 1 / 2], [0, 1 / 4, 1 / 2, 3 / 4], [0, 1 / 2]],
          shape = [2, 4, 2, 3],
          origin = [(1, 1, 1)]\<rparr> \<lparr>nd_shape = [3, 2], nd_data = [0, 1, 3, 0, 1, 1]\<rparr>))
     = [(1, 1, 1)]"
  using getitem_frame [of "\<lparr>cell = ((1, 0, 0), (0, 2, 0), (0, 0, 1)),
          scaled_grid_vectors = [[0, 1 / 2], [0, 1 / 4, 1 / 2, 3 / 4], [0, 1 / 2]],
          shape = [2, 4, 2, 3],
          origin = [(1, 1, 1)]\<rparr>" "\<lparr>nd_shape = [3, 2], nd_data = [0, 1, 3, 0, 1, 1]\<rparr>"]
  by (simp only: LazyMeshGrid.simps)



theorem getitem_nonpositive_length_witness:
  "LazyMeshGrid_init ((1, 0, 0), (0, 0, 0), (0, 0, 1)) (1 / 2) None =
     Inr \<lparr>cell = ((1, 0, 0), (0, 0, 0), (0, 0, 1)),
          scaled_grid_vectors = [[0, 1 / 2], [], [0, 1 / 2]],
          shape = [2, 0, 2, 3],
          origin = [(0, 0, 0)]\<rparr> \<and>
   lengths ((1, 0, 0), (0, 0, 0), (0, 0, 1)) ! 1 \<le> 0 \<and>
   nd_wf \<lparr>nd_shape = [3, 1], nd_data = [0, 0, 0]\<rparr> \<and>
   fst (getitem \<lparr>cell = ((1, 0, 0), (0, 0, 0), (0, 0, 1)),
          scaled_grid_vectors = [[0, 1 / 2], [], [0, 1 / 2]],
          shape = [2, 0, 2, 3],
          origin = [(0, 0, 0)]\<rparr> \<lparr>nd_shape = [3, 1], nd_data = [0, 0, 0]\<rparr>) = Inl IndexError"
proof -
  let ?I = "\<lparr>nd_shape = [3, 1], nd_data = [0, 0, 0]\<rparr>"
  note h1 = flat_grid_init
  have h2: "(1::nat) < 3" by simp
  have h3: "lengths ((1, 0, 0), (0, 0, 0), (0, 0, 1)) ! 1 \<le> 0"
    by (simp add: lengths_def vnorm_axis)
  have h4: "nd_wf ?I" by (simp add: nd_wf_def)
  have h5: "nd_shape ?I = [3, 1]" by simp
  have h6: "(0::nat) < 1" by simp
  from getitem_nonpositive_length [OF h1 h2 h3 h4 h5 h6] h1 h3 h4 show ?thesis by blast
qed

section \<open>Properties of loading a molecule\<close>





section \<open>Properties of the cube-generation loops\<close>

lemma foldl_snoc_map: "foldl (\<lambda>tr p. tr @ [f p]) acc xs = acc @ map f xs"
  by (induction xs arbitrary: acc) simp_all

lemma chunks_Nil: "chunks n [] = []"
  by (simp add: chunks.simps)

lemma chunks_step: "0 < n \<Longrightarrow> xs \<noteq> [] \<Longrightarrow> chunks n xs = take n xs # chunks n (drop n xs)"
  by (subst chunks.simps) simp



lemma cube_body_writable:
  assumes "writable path"
  shows "cube_body writable probe_model path dd trace =
    (Inr (), trace @ CubeWriter_init path (dd_atoms dd) (take 3 (shape (dd_grid_position dd)))
                       (dd_origin dd) ''predicted by DeepDFT model''
              # map (\<lambda>p. CubeWriter_write (map (\<lambda>v. bohr2angp3 * v) (probe_model dd p)))
                  (chunks 1000 (row_major (take 3 (shape (dd_grid_position dd))))))"
  using assms by (simp add: cube_body_def CubeWriter_def DensityGridIterator_def foldl_snoc_map)

lemma cube_body_unwritable:
  assumes "\<not> writable path"
  shows "cube_body writable probe_model path dd trace = (Inl OSError, trace)"
  using assms by (simp add: cube_body_def CubeWriter_def)

lemma cube_body_trace:
  "cube_body writable probe_model path dd trace =
     (fst (cube_body writable probe_model path dd []),
      trace @ snd (cube_body writable probe_model path dd []))"
  by (cases "writable path") (simp_all add: cube_body_writable cube_body_unwritable)


lemma dimer_loop_writable:
  assumes "\<forall>(i, dd)\<in>set mols. writable (''./dimers/'' @ i @ ''.cube'')"
  shows "dimer_loop writable probe_model mols trace =
    (Inr (), trace @ concat (map (\<lambda>(i, dd). snd (cube_body writable probe_model (''./dimers/'' @ i @ ''.cube'') dd [])) mols))"
  using assms
proof (induction mols arbitrary: trace)
  case Nil
  show ?case by simp
next
  case (Cons m mols)
  obtain i dd where m: "m = (i, dd)" by (cases m)
  have w: "writable (''./dimers/'' @ i @ ''.cube'')" using Cons.prems m by simp
  have rest: "\<forall>(i, dd)\<in>set mols. writable (''./dimers/'' @ i @ ''.cube'')" using Cons.prems by simp
  obtain tr where b: "cube_body writable probe_model (''./dimers/'' @ i @ ''.cube'') dd [] = (Inr (), tr)"
    using cube_body_writable [where writable = writable and path = "''./dimers/'' @ i @ ''.cube''", OF w] by blast
  have "cube_body writable probe_model (''./dimers/'' @ i @ ''.cube'') dd trace = (Inr (), trace @ tr)"
    using cube_body_trace [of writable probe_model "''./dimers/'' @ i @ ''.cube''" dd trace] b by simp
  then show ?case using Cons.IH [OF rest, of "trace @ tr"] m b by simp
qed

lemma dimer_loop_unwritable:
  assumes "\<forall>(j, d)\<in>set pre. writable (''./dimers/'' @ j @ ''.cube'')"
    and "\<not> writable (''./dimers/'' @ i @ ''.cube'')"
  shows "dimer_loop writable probe_model (pre @ (i, dd) # post) trace =
    (Inl OSError, trace @ concat (map (\<lambda>(i, dd). snd (cube_body writable probe_model (''./dimers/'' @ i @ ''.cube'') dd [])) pre))"
  using assms(1)
proof (induction pre arbitrary: trace)
  case Nil
  show ?case using assms(2) by (simp add: cube_body_unwritable)
next
  case (Cons m pre)
  obtain j d where m: "m = (j, d)" by (cases m)
  have w: "writable (''./dimers/'' @ j @ ''.cube'')" using Cons.prems m by simp
  have rest: "\<forall>(j, d)\<in>set pre. writable (''./dimers/'' @ j @ ''.cube'')" using Cons.prems by simp
  obtain tr where b: "cube_body writable probe_model (''./dimers/'' @ j @ ''.cube'') d [] = (Inr (), tr)"
    using cube_body_writable [where writable = writable and path = "''./dimers/'' @ j @ ''.cube''", OF w] by blast
  have "cube_body writable probe_model (''./dimers/'' @ j @ ''.cube'') d trace = (Inr (), trace @ tr)"
    using cube_body_trace [of writable probe_model "''./dimers/'' @ j @ ''.cube''" d trace] b by simp
  then show ?case using Cons.IH [OF rest, of "trace @ tr"] m b by simp
qed






text \<open>
  Claim C8. If the cube path of a molecule cannot be opened for writing, constructing the
  cube writer raises, the body raises with it and appends nothing to the trace; the loops
  end there, with the trace as it was before that molecule.
\<close>

theorem cube_writer_unwritable:
  assumes nw: "\<not> writable path"
  shows "CubeWriter writable path atoms0 data_shape origin0 comment = Inl OSError \<and>
         cube_body writable probe_model path dd trace = (Inl OSError, trace) \<and>
         (path = ''./cube/'' @ i @ ''.deepdft.cube'' \<longrightarrow>
            sugbench_loop writable probe_model ((i, dd) # rest) trace = (Inl OSError, trace)) \<and>
         (path = ''./dimers/'' @ i @ ''.cube'' \<longrightarrow>
          (\<forall>(j, d)\<in>set pre. writable (''./dimers/'' @ j @ ''.cube'')) \<longrightarrow>
            dimer_loop writable probe_model (pre @ (i, dd) # post) trace =
              (Inl OSError, snd (dimer_loop writable probe_model pre trace)))"
proof (intro conjI impI)
  show "CubeWriter writable path atoms0 data_shape origin0 comment = Inl OSError"
    using nw by (simp add: CubeWriter_def)
  show "cube_body writable probe_model path dd trace = (Inl OSError, trace)"
    using nw by (rule cube_body_unwritable)
next
  assume "path = ''./cube/'' @ i @ ''.deepdft.cube''"
  then show "sugbench_loop writable probe_model ((i, dd) # rest) trace = (Inl OSError, trace)"
    using nw by (simp add: cube_body_unwritable)
next
  assume p: "path = ''./dimers/'' @ i @ ''.cube''"
    and pre: "\<forall>(j, d)\<in>set pre. writable (''./dimers/'' @ j @ ''.cube'')"
  have nw': "\<not> writable (''./dimers/'' @ i @ ''.cube'')" using nw p by simp
  show "dimer_loop writable probe_model (pre @ (i, dd) # post) trace =
              (Inl OSError, snd (dimer_loop writable probe_model pre trace))"
    unfolding dimer_loop_unwritable [OF pre nw'] dimer_loop_writable [OF pre] by simp
qed

lemma example_cube_body:
  "cube_body (\<lambda>p. p = ''./dimers/a.cube'') (\<lambda>d ps. map (\<lambda>v. real (sum_list v)) ps) ''./dimers/a.cube''
     \<lparr>dd_atoms = \<lparr>get_positions = [(0, 0, 0)], get_cell = ((1 / 2, 0, 0), (0, 1, 0), (0, 0, 1))\<rparr>,
      dd_origin = (0, 0, 0),
      dd_grid_position =
        \<lparr>cell = ((1 / 2, 0, 0), (0, 1, 0), (0, 0, 1)),
         scaled_grid_vectors = [[0], [0, 1 / 2], [0, 1 / 2]],
         shape = [1, 2, 2, 3],
         origin = [(0, 0, 0)]\<rparr>\<rparr> trace =
   (Inr (), trace @
     [CubeWriter_init ''./dimers/a.cube''
        \<lparr>get_positions = [(0, 0, 0)], get_cell = ((1 / 2, 0, 0), (0, 1, 0), (0, 0, 1))\<rparr>
        [1, 2, 2] (0, 0, 0) ''predicted by DeepDFT model'',
      CubeWriter_write [bohr2angp3 * 0, bohr2angp3 * 1, bohr2angp3 * 1, bohr2angp3 * 2]])"
  by (simp add: cube_body_def CubeWriter_def DensityGridIterator_def upt_conv_Cons
      chunks_step chunks_Nil)


theorem cube_writer_unwritable_witness:
  "cube_body (\<lambda>p. p = ''./dimers/a.cube'') (\<lambda>d ps. map (\<lambda>v. real (sum_list v)) ps) ''./dimers/b.cube''
     \<lparr>dd_atoms = \<lparr>get_positions = [(0, 0, 0)], get_cell = ((1 / 2, 0, 0), (0, 1, 0), (0, 0, 1))\<rparr>,
      dd_origin = (0, 0, 0),
      dd_grid_position =
        \<lparr>cell = ((1 / 2, 0, 0), (0, 1, 0), (0, 0, 1)),
         scaled_grid_vectors = [[0], [0, 1 / 2], [0, 1 / 2]],
         shape = [1, 2, 2, 3],
         origin = [(0, 0, 0)]\<rparr>\<rparr> [] = (Inl OSError, []) \<and>
   dimer_loop (\<lambda>p. p = ''./dimers/a.cube'') (\<lambda>d ps. map (\<lambda>v. real (sum_list v)) ps)
     [(''a'', \<lparr>dd_atoms = \<lparr>get_positions = [(0, 0, 0)], get_cell = ((1 / 2, 0, 0), (0, 1, 0), (0, 0, 1))\<rparr>,
      dd_origin = (0, 0, 0),
      dd_grid_position =
        \<lparr>cell = ((1 / 2, 0, 0), (0, 1, 0), (0, 0, 1)),
         scaled_grid_vectors = [[0], [0, 1 / 2], [0, 1 / 2]],
         shape = [1, 2, 2, 3],
         origin = [(0, 0, 0)]\<rparr>\<rparr>),
      (''b'', \<lparr>dd_atoms = \<lparr>get_positions = [(0, 0, 0)], get_cell = ((1 / 2, 0, 0), (0, 1, 0), (0, 0, 1))\<rparr>,
      dd_origin = (0, 0, 0),
      dd_grid_position =
        \<lparr>cell = ((1 / 2, 0, 0), (0, 1, 0), (0, 0, 1)),
         scaled_grid_vectors = [[0], [0, 1 / 2], [0, 1 / 2]],
         shape = [1, 2, 2, 3],
         origin = [(0, 0, 0)]\<rparr>\<rparr>)] [] =
   (Inl OSError,
     [CubeWriter_init ''./dimers/a.cube''
        \<lparr>get_positions = [(0, 0, 0)], get_cell = ((1 / 2, 0, 0), (0, 1, 0), (0, 0, 1))\<rparr>
        [1, 2, 2] (0, 0, 0) ''predicted by DeepDFT model'',
      CubeWriter_write [bohr2angp3 * 0, bohr2angp3 * 1, bohr2angp3 * 1, bohr2angp3 * 2]])"
proof -
  let ?W = "\<lambda>p. p = ''./dimers/a.cube''"
  let ?PM = "\<lambda>(d::density_dict) ps. map (\<lambda>v. real (sum_list v)) ps"
  let ?dd = "\<lparr>dd_atoms = \<lparr>get_positions = [(0, 0, 0)], get_cell = ((1 / 2, 0, 0), (0, 1, 0), (0, 0, 1))\<rparr>,
      dd_origin = (0, 0, 0),
      dd_grid_position =
        \<lparr>cell = ((1 / 2, 0, 0), (0, 1, 0), (0, 0, 1)),
         scaled_grid_vectors = [[0], [0, 1 / 2], [0, 1 / 2]],
         shape = [1, 2, 2, 3],
         origin = [(0, 0, 0)]\<rparr>\<rparr>"
  have nw: "\<not> ?W ''./dimers/b.cube''" by simp
  have p: "''./dimers/b.cube'' = ''./dimers/'' @ ''b'' @ ''.cube''" by simp
  have pre: "\<forall>(j, d)\<in>set [(''a'', ?dd)]. ?W (''./dimers/'' @ j @ ''.cube'')" by simp
  note t = cube_writer_unwritable [where writable = ?W and probe_model = ?PM and dd = ?dd
      and trace = "[]" and i = "''b''" and pre = "[(''a'', ?dd)]" and post = "[]", OF nw]
  have a: "cube_body ?W ?PM ''./dimers/b.cube'' ?dd [] = (Inl OSError, [])"
    using t by blast
  have "dimer_loop ?W ?PM ([(''a'', ?dd)] @ (''b'', ?dd) # []) [] =
          (Inl OSError, snd (dimer_loop ?W ?PM [(''a'', ?dd)] []))"
    using t p pre by blast
  then have b: "dimer_loop ?W ?PM [(''a'', ?dd), (''b'', ?dd)] [] =
     (Inl OSError,
       [CubeWriter_init ''./dimers/a.cube''
        \<lparr>get_positions = [(0, 0, 0)], get_cell = ((1 / 2, 0, 0), (0, 1, 0), (0, 0, 1))\<rparr>
        [1, 2, 2] (0, 0, 0) ''predicted by DeepDFT model'',
      CubeWriter_write [bohr2angp3 * 0, bohr2angp3 * 1, bohr2angp3 * 1, bohr2angp3 * 2]])"
    using example_cube_body [of "[]"] by simp
  from a b show ?thesis by (rule conjI)
qed

end
